theory Spec2Isabelle
  imports Complex_Main
begin

section \<open>Data model (frontend/src/types)\<close>

text \<open>
  The TypeScript interfaces become records and the string-literal unions become
  datatypes. A JavaScript \<open>number\<close> that counts something is an \<open>int\<close>, one that
  measures a rate or a quality is a \<open>real\<close>; timestamps stay the ISO strings they are
  on the wire. Field names are the source's, except where two interfaces share a name
  or a name is taken by HOL: \<open>Participant.sid\<close> and \<open>Participant.name\<close> are
  \<open>participant_sid\<close> and \<open>participant_name\<close>, \<open>Alert.id\<close> is \<open>alert_id\<close>, and the
  fields \<open>time\<close>, \<open>rooms\<close>, \<open>participants\<close> of \<open>ChartDataPoint\<close> are \<open>point_time\<close>,
  \<open>point_rooms\<close>, \<open>point_participants\<close>.
\<close>

datatype ConnectionQuality = Excellent | Good | Poor | Unknown

datatype AlertSeverity = SevInfo | SevWarning | SevCritical

datatype AlertStatus = Active | Resolved

datatype ConnectionStatus = Connecting | Connected | Disconnected | Error

record Participant =
  participant_sid :: string
  identity :: string
  participant_name :: "string option"
  joined_at :: string
  connection_quality :: ConnectionQuality
  is_publisher :: bool
  tracks_published :: int

record Room =
  sid :: string
  name :: string
  created_at :: string
  participant_count :: int
  max_participants :: int
  participants :: "Participant list"

record SystemMetrics =
  timestamp :: string
  active_rooms :: int
  total_participants :: int
  join_rate :: real
  leave_rate :: real
  disconnect_rate :: real
  avg_room_duration_seconds :: real
  avg_connection_quality :: real

record Alert =
  alert_id :: string
  severity :: AlertSeverity
  status :: AlertStatus
  title :: string
  description :: string
  room_name :: "string option"
  alert_created_at :: string
  resolved_at :: "string option"

record ChartDataPoint =
  point_time :: string
  point_rooms :: int
  point_participants :: int
  joinRate :: real
  disconnectRate :: real

text \<open>
  \<open>WebSocketMessage\<close> is a tagged union \<open>{type, data}\<close>. Each constructor is one tag
  with the payload the handler casts \<open>data\<close> to. The payload of \<open>room_update\<close> is
  \<open>{type: string; room: Room}\<close>; its inner \<open>type\<close> stays a string, because the handler
  compares it with two literals and ignores every other value. \<open>OtherKind t\<close> is a
  message whose tag \<open>t\<close> is none of the five the union declares.
\<close>

datatype WebSocketMessage =
    MetricsUpdate SystemMetrics
  | RoomUpdate string Room
  | AlertMsg Alert
  | Heartbeat
  | Pong
  | OtherKind string

section \<open>The dashboard state: hook \<open>useMetrics\<close>\<close>

text \<open>The five \<open>useState\<close> cells of \<open>useMetrics\<close>, with their initial values.\<close>

record metrics_state =
  currentMetrics :: "SystemMetrics option"
  rooms :: "Room list"
  activeAlerts :: "Alert list"
  resolvedAlerts :: "Alert list"
  chartData :: "ChartDataPoint list"

definition initial_state :: metrics_state where
  "initial_state =
     \<lparr>currentMetrics = None, rooms = [], activeAlerts = [], resolvedAlerts = [],
      chartData = []\<rparr>"

text \<open>
  \<open>new Date(ts).toLocaleTimeString()\<close> depends on the browser's locale, so the
  formatter is a parameter \<open>fmt\<close> of every function that builds a chart point.
\<close>

definition chartPoint :: "(string \<Rightarrow> string) \<Rightarrow> SystemMetrics \<Rightarrow> ChartDataPoint" where
  "chartPoint fmt metrics =
     \<lparr>point_time = fmt (timestamp metrics),
      point_rooms = active_rooms metrics,
      point_participants = total_participants metrics,
      joinRate = join_rate metrics,
      disconnectRate = disconnect_rate metrics\<rparr>"

text \<open>\<open>updated.slice(-60)\<close>: the last 60 elements.\<close>

definition slice_last :: "nat \<Rightarrow> 'a list \<Rightarrow> 'a list" where
  "slice_last n xs = drop (length xs - n) xs"

text \<open>The updater passed to \<open>setChartData\<close> in the \<open>metrics_update\<close> case.\<close>

definition appendChartPoint :: "ChartDataPoint \<Rightarrow> ChartDataPoint list \<Rightarrow> ChartDataPoint list" where
  "appendChartPoint newPoint prev =
     (let updated = prev @ [newPoint]
      in if length updated > 60 then slice_last 60 updated else updated)"

text \<open>\<open>prev.some(a => a.id === alert.id)\<close>.\<close>

definition alert_exists :: "string \<Rightarrow> Alert list \<Rightarrow> bool" where
  "alert_exists i prev = list_ex (\<lambda>a. alert_id a = i) prev"

text \<open>The updater of \<open>setActiveAlerts\<close> for an alert whose status is \<open>active\<close>.\<close>

definition addActive :: "Alert \<Rightarrow> Alert list \<Rightarrow> Alert list" where
  "addActive alert prev = (if alert_exists (alert_id alert) prev then prev else prev @ [alert])"

text \<open>The updater of \<open>setResolvedAlerts\<close> for an alert whose status is not \<open>active\<close>.\<close>

definition addResolved :: "Alert \<Rightarrow> Alert list \<Rightarrow> Alert list" where
  "addResolved alert prev =
     (if alert_exists (alert_id alert) prev then prev else take 20 (alert # prev))"

text \<open>
  \<open>handleMessage\<close>: the \<open>switch (message.type)\<close>. The switch has no \<open>default\<close>
  branch, and the \<open>heartbeat\<close> case only breaks.
\<close>

fun handleMessage :: "(string \<Rightarrow> string) \<Rightarrow> metrics_state \<Rightarrow> WebSocketMessage \<Rightarrow> metrics_state" where
  "handleMessage fmt s (MetricsUpdate metrics) =
     s\<lparr>currentMetrics := Some metrics,
       chartData := appendChartPoint (chartPoint fmt metrics) (chartData s)\<rparr>"
| "handleMessage fmt s (RoomUpdate ty room) =
     (if ty = ''room_started'' then s\<lparr>rooms := rooms s @ [room]\<rparr>
      else if ty = ''room_finished'' then s\<lparr>rooms := filter (\<lambda>r. sid r \<noteq> sid room) (rooms s)\<rparr>
      else s)"
| "handleMessage fmt s (AlertMsg alert) =
     (if status alert = Active then s\<lparr>activeAlerts := addActive alert (activeAlerts s)\<rparr>
      else s\<lparr>activeAlerts := filter (\<lambda>a. alert_id a \<noteq> alert_id alert) (activeAlerts s),
             resolvedAlerts := addResolved alert (resolvedAlerts s)\<rparr>)"
| "handleMessage fmt s Heartbeat = s"
| "handleMessage fmt s Pong = s"
| "handleMessage fmt s (OtherKind t) = s"

text \<open>Messages are handled one at a time, in the order the socket delivers them.\<close>

definition replay :: "(string \<Rightarrow> string) \<Rightarrow> metrics_state \<Rightarrow> WebSocketMessage list \<Rightarrow> metrics_state" where
  "replay fmt s ms = foldl (handleMessage fmt) s ms"

text \<open>
  The kinds of message the handler has no work for: \<open>heartbeat\<close>, and every tag
  outside the four cases of the switch.
\<close>

fun ignored_kind :: "WebSocketMessage \<Rightarrow> bool" where
  "ignored_kind Heartbeat = True"
| "ignored_kind Pong = True"
| "ignored_kind (OtherKind t) = True"
| "ignored_kind _ = False"


subsection \<open>HTTP actions: \<open>resolveAlert\<close> and \<open>refreshData\<close>\<close>

text \<open>
  What one \<open>fetch\<close> gave, as the handler sees it: \<open>Fetched v\<close> is a response with
  \<open>res.ok\<close> whose body parsed to \<open>v\<close>; \<open>NotOk\<close> is a response whose \<open>res.ok\<close> is
  false (a 404 not-found among them); \<open>Threw\<close> is a rejected \<open>fetch\<close> or \<open>json()\<close>,
  which sends control to the \<open>catch\<close>.
\<close>

datatype 'a fetched = Fetched 'a | NotOk | Threw

text \<open>
  \<open>resolveAlert(alertId)\<close>, given the response to its POST. The resolved list takes
  the returned alert in front with no check for an entry of the same id.
\<close>

fun resolveAlert :: "metrics_state \<Rightarrow> string \<Rightarrow> Alert fetched \<Rightarrow> metrics_state" where
  "resolveAlert s alertId (Fetched resolved) =
     s\<lparr>activeAlerts := filter (\<lambda>a. alert_id a \<noteq> alertId) (activeAlerts s),
       resolvedAlerts := take 20 (resolved # resolvedAlerts s)\<rparr>"
| "resolveAlert s alertId NotOk = s"
| "resolveAlert s alertId Threw = s"

text \<open>
  The body of \<open>GET /api/alerts\<close>; a missing field is read as \<open>[]\<close>
  (\<open>alertsData.active || []\<close>).
\<close>

record AlertsResponse =
  active :: "Alert list option"
  resolved :: "Alert list option"

definition or_empty :: "'a list option \<Rightarrow> 'a list" where
  "or_empty xs = (case xs of None \<Rightarrow> [] | Some ys \<Rightarrow> ys)"

text \<open>
  \<open>refreshData\<close>, given the responses to its four requests. The requests run in
  sequence inside one \<open>try\<close>: a request that throws ends the function, and the
  setters already called keep their effect. The history replaces the chart data as
  it comes, one point per snapshot.
\<close>

definition refreshMetrics :: "metrics_state \<Rightarrow> SystemMetrics fetched \<Rightarrow> metrics_state" where
  "refreshMetrics s res = (case res of Fetched metrics \<Rightarrow> s\<lparr>currentMetrics := Some metrics\<rparr> | _ \<Rightarrow> s)"

definition refreshRooms :: "metrics_state \<Rightarrow> Room list fetched \<Rightarrow> metrics_state" where
  "refreshRooms s res = (case res of Fetched roomsData \<Rightarrow> s\<lparr>rooms := roomsData\<rparr> | _ \<Rightarrow> s)"

definition refreshAlerts :: "metrics_state \<Rightarrow> AlertsResponse fetched \<Rightarrow> metrics_state" where
  "refreshAlerts s res =
     (case res of
        Fetched alertsData \<Rightarrow>
          s\<lparr>activeAlerts := or_empty (active alertsData),
            resolvedAlerts := or_empty (resolved alertsData)\<rparr>
      | _ \<Rightarrow> s)"

definition refreshHistory ::
  "(string \<Rightarrow> string) \<Rightarrow> metrics_state \<Rightarrow> SystemMetrics list fetched \<Rightarrow> metrics_state" where
  "refreshHistory fmt s res =
     (case res of Fetched history \<Rightarrow> s\<lparr>chartData := map (chartPoint fmt) history\<rparr> | _ \<Rightarrow> s)"

definition refreshData ::
  "(string \<Rightarrow> string) \<Rightarrow> metrics_state \<Rightarrow> SystemMetrics fetched \<Rightarrow> Room list fetched \<Rightarrow>
   AlertsResponse fetched \<Rightarrow> SystemMetrics list fetched \<Rightarrow> metrics_state" where
  "refreshData fmt s metricsRes roomsRes alertsRes historyRes =
     (if metricsRes = Threw then s
      else let s1 = refreshMetrics s metricsRes in
        if roomsRes = Threw then s1
        else let s2 = refreshRooms s1 roomsRes in
          if alertsRes = Threw then s2
          else let s3 = refreshAlerts s2 alertsRes in
            if historyRes = Threw then s3
            else refreshHistory fmt s3 historyRes)"

text \<open>
  Everything that changes the dashboard state: a message from the socket, a call of
  \<open>resolveAlert\<close> with its response, a call of \<open>refreshData\<close> with its responses.
\<close>

datatype dashboard_event =
    Message WebSocketMessage
  | ResolveAlert string "Alert fetched"
  | Refresh "SystemMetrics fetched" "Room list fetched" "AlertsResponse fetched"
      "SystemMetrics list fetched"

fun apply_event :: "(string \<Rightarrow> string) \<Rightarrow> metrics_state \<Rightarrow> dashboard_event \<Rightarrow> metrics_state" where
  "apply_event fmt s (Message m) = handleMessage fmt s m"
| "apply_event fmt s (ResolveAlert alertId res) = resolveAlert s alertId res"
| "apply_event fmt s (Refresh metricsRes roomsRes alertsRes historyRes) =
     refreshData fmt s metricsRes roomsRes alertsRes historyRes"

definition run_events :: "(string \<Rightarrow> string) \<Rightarrow> metrics_state \<Rightarrow> dashboard_event list \<Rightarrow> metrics_state" where
  "run_events fmt s evs = foldl (apply_event fmt) s evs"

fun is_refresh :: "dashboard_event \<Rightarrow> bool" where
  "is_refresh (Refresh _ _ _ _) = True"
| "is_refresh _ = False"

subsection \<open>The server side of \<open>resolveAlert\<close>\<close>

text \<open>
  Modelled from the spec: the alert engine of the backend (\<open>backend/app/alerts/engine.py\<close>),
  which is not among the sources. It owns the active alerts and the log of resolved
  ones, kept to the last \<open>retention\<close> entries (20 by default).
\<close>

record alert_engine =
  engine_active :: "Alert list"
  engine_resolved :: "Alert list"
  retention :: nat

datatype api_error = NotFoundError

text \<open>
  Modelled from the spec: \<open>resolve(alert_id)\<close> of the alert engine. "Manual resolution
  transitions an active alert to resolved immediately", stamps \<open>resolved_at = now\<close> and
  moves the alert to the resolved log, "evicting oldest beyond capacity"; "resolving a
  non-existent or already-resolved id fails with \<open>NotFoundError\<close>" and "leaves all
  existing alert state unchanged". An id is resolvable exactly when an active alert
  has it: an id that no alert has is unknown, and an alert that is already resolved
  is in the log and no longer among the active ones.
\<close>

definition engine_resolve ::
  "string \<Rightarrow> alert_engine \<Rightarrow> string \<Rightarrow> (api_error + Alert) \<times> alert_engine" where
  "engine_resolve now e alertId =
     (case find (\<lambda>a. alert_id a = alertId) (engine_active e) of
        None \<Rightarrow> (Inl NotFoundError, e)
      | Some a \<Rightarrow>
          (let r = a\<lparr>status := Resolved, resolved_at := Some now\<rparr>
           in (Inr r,
               e\<lparr>engine_active := filter (\<lambda>x. alert_id x \<noteq> alertId) (engine_active e),
                 engine_resolved := take (retention e) (r # engine_resolved e)\<rparr>)))"

text \<open>
  Modelled from the spec: the endpoint \<open>POST alert/{id}/resolve\<close>, which answers with
  "the now-resolved Alert, or not-found if the id is unknown or already resolved". A
  not-found answer is a response whose \<open>res.ok\<close> is false.
\<close>

fun http_response :: "api_error + Alert \<Rightarrow> Alert fetched" where
  "http_response (Inl NotFoundError) = NotOk"
| "http_response (Inr a) = Fetched a"

text \<open>
  One call of \<open>resolveAlert(alertId)\<close> against the server: the engine resolves, the
  endpoint answers, the hook handles the answer. The result is the engine and the
  dashboard state after the call.
\<close>

definition resolve_call ::
  "string \<Rightarrow> alert_engine \<Rightarrow> metrics_state \<Rightarrow> string \<Rightarrow> alert_engine \<times> metrics_state" where
  "resolve_call now e s alertId =
     (snd (engine_resolve now e alertId),
      resolveAlert s alertId (http_response (fst (engine_resolve now e alertId))))"

subsection \<open>The rooms a message sequence leaves live\<close>

text \<open>
  Read off the message sequence alone, with no reference to the handler:
  \<open>finished_in i ms\<close> says that \<open>ms\<close> holds a \<open>room_finished\<close> notice for the room id
  \<open>i\<close>; \<open>started_not_finished ms\<close> lists, in the order of their announcement, the rooms
  of the \<open>room_started\<close> notices of \<open>ms\<close> that no later notice of \<open>ms\<close> finishes.
\<close>

fun finishes :: "string \<Rightarrow> WebSocketMessage \<Rightarrow> bool" where
  "finishes i (RoomUpdate ty room) = (ty = ''room_finished'' \<and> sid room = i)"
| "finishes i _ = False"

definition finished_in :: "string \<Rightarrow> WebSocketMessage list \<Rightarrow> bool" where
  "finished_in i ms = list_ex (finishes i) ms"

fun started_room :: "WebSocketMessage \<Rightarrow> Room option" where
  "started_room (RoomUpdate ty room) = (if ty = ''room_started'' then Some room else None)"
| "started_room _ = None"

fun started_not_finished :: "WebSocketMessage list \<Rightarrow> Room list" where
  "started_not_finished [] = []"
| "started_not_finished (m # ms) =
     (case started_room m of
        Some room \<Rightarrow>
          if finished_in (sid room) ms then started_not_finished ms
          else room # started_not_finished ms
      | None \<Rightarrow> started_not_finished ms)"

section \<open>Overall health: component \<open>SystemHealth\<close>\<close>

datatype HealthStatus = Healthy | Warning | Critical

text \<open>
  \<open>getOverallHealth\<close> closes over the three props of the component; they are its
  arguments here. \<open>metrics && ...\<close> is false for a \<open>null\<close> snapshot.
\<close>

definition getOverallHealth ::
  "ConnectionStatus \<Rightarrow> SystemMetrics option \<Rightarrow> int \<Rightarrow> HealthStatus \<times> string" where
  "getOverallHealth connectionStatus metrics activeAlertCount =
     (if connectionStatus \<noteq> Connected then (Critical, ''Disconnected'')
      else if activeAlertCount > 0 then (Warning, ''Issues Detected'')
      else if (case metrics of None \<Rightarrow> False | Some m \<Rightarrow> avg_connection_quality m < 0.5)
        then (Warning, ''Degraded Performance'')
      else (Healthy, ''All Systems Operational''))"


section \<open>The connection: hook \<open>useWebSocket\<close>\<close>

text \<open>
  The options of the hook with their defaults, and whether \<open>new WebSocket(url)\<close>
  accepts the URL (the constructor throws on a URL it cannot parse, which the
  \<open>try\<close>/\<open>catch\<close> of \<open>connect\<close> turns into the status \<open>error\<close>). Delays are in
  milliseconds, as passed to \<open>setTimeout\<close> and \<open>setInterval\<close>.
\<close>

record ws_config =
  url_ok :: bool
  reconnectInterval :: nat
  maxReconnectAttempts :: nat

definition default_config :: ws_config where
  "default_config = \<lparr>url_ok = True, reconnectInterval = 3000, maxReconnectAttempts = 10\<rparr>"

text \<open>
  The state the hook keeps: the \<open>status\<close> cell (\<open>ws_status\<close> here, since \<open>Alert\<close> has a
  field \<open>status\<close>) and the four refs. Sockets and timers are numbered in the order of
  their creation: \<open>wsRef\<close> holds the number of the current socket, \<open>timers\<close> the pending
  timeouts as pairs of timer id and delay, \<open>reconnectTimeoutRef\<close> the id that the last
  \<open>setTimeout\<close> returned (timer ids start at 1, so the truth test of \<open>disconnect\<close> is
  a test for \<open>null\<close>). \<open>pingInterval\<close> is the period of the running ping interval,
  \<open>sent\<close> the objects handed to \<open>ws.send\<close>, each as its list of fields.
\<close>

record ws_state =
  ws_status :: ConnectionStatus
  wsRef :: "nat option"
  sockets :: nat
  reconnectAttemptsRef :: nat
  reconnectTimeoutRef :: "nat option"
  timers :: "(nat \<times> nat) list"
  nextTimer :: nat
  mountedRef :: bool
  pingInterval :: "nat option"
  sent :: "(string \<times> string) list list"

definition ws_initial :: ws_state where
  "ws_initial =
     \<lparr>ws_status = Connecting, wsRef = None, sockets = 0, reconnectAttemptsRef = 0,
      reconnectTimeoutRef = None, timers = [], nextTimer = 1, mountedRef = True,
      pingInterval = None, sent = []\<rparr>"

definition connect :: "ws_config \<Rightarrow> ws_state \<Rightarrow> ws_state" where
  "connect cfg s =
     (if \<not> mountedRef s then s
      else if \<not> url_ok cfg then s\<lparr>ws_status := Error\<rparr>
      else s\<lparr>wsRef := Some (sockets s), sockets := sockets s + 1, ws_status := Connecting\<rparr>)"

definition onopen :: "ws_state \<Rightarrow> ws_state" where
  "onopen s =
     (if \<not> mountedRef s then s
      else s\<lparr>ws_status := Connected, reconnectAttemptsRef := 0\<rparr>)"

definition onclose :: "ws_config \<Rightarrow> ws_state \<Rightarrow> ws_state" where
  "onclose cfg s =
     (if \<not> mountedRef s then s
      else let s1 = s\<lparr>ws_status := Disconnected\<rparr> in
        if reconnectAttemptsRef s1 < maxReconnectAttempts cfg
        then s1\<lparr>reconnectAttemptsRef := reconnectAttemptsRef s1 + 1,
                reconnectTimeoutRef := Some (nextTimer s1),
                timers := timers s1 @ [(nextTimer s1, reconnectInterval cfg)],
                nextTimer := nextTimer s1 + 1\<rparr>
        else s1)"

definition onerror :: "ws_state \<Rightarrow> ws_state" where
  "onerror s = (if \<not> mountedRef s then s else s\<lparr>ws_status := Error\<rparr>)"

text \<open>
  \<open>onmessage\<close> stores the parsed message and hands it to \<open>handleMessage\<close>; it touches
  none of the fields of the connection.
\<close>

definition onmessage :: "ws_state \<Rightarrow> ws_state" where
  "onmessage s = s"

text \<open>A pending timeout fires: it leaves the pending set and calls \<open>connect\<close>.\<close>

definition timerFired :: "ws_config \<Rightarrow> ws_state \<Rightarrow> nat \<Rightarrow> ws_state" where
  "timerFired cfg s tid =
     (if list_ex (\<lambda>t. fst t = tid) (timers s)
      then connect cfg (s\<lparr>timers := filter (\<lambda>t. fst t \<noteq> tid) (timers s)\<rparr>)
      else s)"

text \<open>
  \<open>disconnect\<close>: \<open>clearTimeout\<close> removes the timer of that id if it is still pending;
  \<open>ws.close()\<close> only asks the socket to close, whose close event arrives later.
\<close>

definition disconnect :: "ws_state \<Rightarrow> ws_state" where
  "disconnect s =
     (let s1 = (case reconnectTimeoutRef s of
                  Some tid \<Rightarrow> s\<lparr>timers := filter (\<lambda>t. fst t \<noteq> tid) (timers s),
                                reconnectTimeoutRef := None\<rparr>
                | None \<Rightarrow> s)
      in case wsRef s1 of Some w \<Rightarrow> s1\<lparr>wsRef := None\<rparr> | None \<Rightarrow> s1)"

definition reconnect :: "ws_config \<Rightarrow> ws_state \<Rightarrow> ws_state" where
  "reconnect cfg s = connect cfg ((disconnect s)\<lparr>reconnectAttemptsRef := 0\<rparr>)"

text \<open>
  \<open>sendMessage\<close>: \<open>ready\<close> is whether the \<open>readyState\<close> of the current socket is \<open>OPEN\<close>
  at the time of the call, which the browser decides.
\<close>

definition sendMessage :: "ws_state \<Rightarrow> bool \<Rightarrow> (string \<times> string) list \<Rightarrow> ws_state" where
  "sendMessage s ready message =
     (if wsRef s \<noteq> None \<and> ready then s\<lparr>sent := sent s @ [message]\<rparr> else s)"

definition ping :: "(string \<times> string) list" where
  "ping = [(''type'', ''ping'')]"

text \<open>
  The ping effect has the dependencies \<open>[status, sendMessage]\<close> and \<open>sendMessage\<close> never
  changes, so React runs its cleanup and then its body after every render in which
  \<open>status\<close> changed, and its cleanup at unmount: what is left is an interval of 30000
  when the status is \<open>connected\<close> and no interval otherwise.
\<close>

definition pingEffect :: "ws_state \<Rightarrow> ws_state" where
  "pingEffect s =
     (if \<not> mountedRef s then s\<lparr>pingInterval := None\<rparr>
      else if ws_status s \<noteq> Connected then s\<lparr>pingInterval := None\<rparr>
      else s\<lparr>pingInterval := Some 30000\<rparr>)"

text \<open>A tick of the ping interval, if there is one.\<close>

definition pingTick :: "ws_state \<Rightarrow> bool \<Rightarrow> ws_state" where
  "pingTick s ready = (if pingInterval s = None then s else sendMessage s ready ping)"

text \<open>The cleanup of the connection effect.\<close>

definition unmount :: "ws_state \<Rightarrow> ws_state" where
  "unmount s = disconnect (s\<lparr>mountedRef := False\<rparr>)"

text \<open>
  What can happen to a mounted hook: the four events of a socket, a reconnect timeout
  firing, a tick of the ping interval, a call of the returned \<open>reconnect\<close>, the
  unmount. The handlers of every socket the hook created write the same cell and the
  same refs, so a signal does not say which socket it comes from. After each one React
  renders and the ping effect is brought up to date.
\<close>

datatype ws_signal =
    ChannelOpen
  | ChannelClose
  | ChannelError
  | ChannelMessage
  | TimerFired nat
  | PingTick bool
  | ManualReconnect
  | Unmount

fun handle_signal :: "ws_config \<Rightarrow> ws_state \<Rightarrow> ws_signal \<Rightarrow> ws_state" where
  "handle_signal cfg s ChannelOpen = onopen s"
| "handle_signal cfg s ChannelClose = onclose cfg s"
| "handle_signal cfg s ChannelError = onerror s"
| "handle_signal cfg s ChannelMessage = onmessage s"
| "handle_signal cfg s (TimerFired tid) = timerFired cfg s tid"
| "handle_signal cfg s (PingTick ready) = pingTick s ready"
| "handle_signal cfg s ManualReconnect = reconnect cfg s"
| "handle_signal cfg s Unmount = unmount s"

definition step :: "ws_config \<Rightarrow> ws_state \<Rightarrow> ws_signal \<Rightarrow> ws_state" where
  "step cfg s sg = pingEffect (handle_signal cfg s sg)"

text \<open>The mount effect sets \<open>mountedRef\<close> and calls \<open>connect\<close>.\<close>

definition mount :: "ws_config \<Rightarrow> ws_state" where
  "mount cfg = pingEffect (connect cfg ws_initial)"

definition run :: "ws_config \<Rightarrow> ws_signal list \<Rightarrow> ws_state" where
  "run cfg sgs = foldl (step cfg) (mount cfg) sgs"

text \<open>
  The delay of the reconnect timeout that is pending after a run, if exactly one is.
\<close>

definition retry_delay :: "ws_config \<Rightarrow> ws_signal list \<Rightarrow> nat option" where
  "retry_delay cfg sgs =
     (case timers (run cfg sgs) of [t] \<Rightarrow> Some (snd t) | _ \<Rightarrow> None)"

fun resets_attempts :: "ws_signal \<Rightarrow> bool" where
  "resets_attempts ChannelOpen = True"
| "resets_attempts ManualReconnect = True"
| "resets_attempts _ = False"


subsection \<open>Invariants of the connection\<close>

text \<open>
  \<open>conn_inv\<close>: the attempt counter is within its cap and every pending timeout has the
  configured delay. \<open>count_inv\<close>: as long as nothing has reset the counter, the
  timeouts created so far are as many as the attempts counted. \<open>ping_inv\<close>: only pings
  were sent, and the ping interval runs exactly while the status is \<open>connected\<close>.
\<close>

definition conn_inv :: "ws_config \<Rightarrow> ws_state \<Rightarrow> bool" where
  "conn_inv cfg s \<longleftrightarrow>
     reconnectAttemptsRef s \<le> maxReconnectAttempts cfg
     \<and> (\<forall>t\<in>set (timers s). snd t = reconnectInterval cfg)"

definition count_inv :: "ws_state \<Rightarrow> bool" where
  "count_inv s \<longleftrightarrow> nextTimer s = Suc (reconnectAttemptsRef s)"

definition ping_inv :: "ws_state \<Rightarrow> bool" where
  "ping_inv s \<longleftrightarrow>
     (\<forall>m\<in>set (sent s). m = ping)
     \<and> pingInterval s = (if mountedRef s \<and> ws_status s = Connected then Some 30000 else None)"

section \<open>Example values\<close>

definition roomA :: Room where
  "roomA = \<lparr>sid = ''RM_A'', name = ''standup'', created_at = ''2024-01-01T00:00:00Z'',
     participant_count = 0, max_participants = 10, participants = []\<rparr>"

definition roomB :: Room where
  "roomB = \<lparr>sid = ''RM_B'', name = ''retro'', created_at = ''2024-01-01T00:01:00Z'',
     participant_count = 0, max_participants = 10, participants = []\<rparr>"

definition alert1 :: Alert where
  "alert1 = \<lparr>alert_id = ''a1'', severity = SevWarning, status = Active,
     title = ''High disconnect rate'', description = ''d'', room_name = None,
     alert_created_at = ''2024-01-01T00:00:00Z'', resolved_at = None\<rparr>"

definition alert1_resolved :: Alert where
  "alert1_resolved = alert1\<lparr>status := Resolved, resolved_at := Some ''2024-01-01T00:05:00Z''\<rparr>"

definition engine1 :: alert_engine where
  "engine1 = \<lparr>engine_active = [alert1], engine_resolved = [], retention = 20\<rparr>"

definition metrics0 :: SystemMetrics where
  "metrics0 = \<lparr>timestamp = ''2024-01-01T00:00:00Z'', active_rooms = 1, total_participants = 2,
     join_rate = 0, leave_rate = 0, disconnect_rate = 0, avg_room_duration_seconds = 0,
     avg_connection_quality = 1\<rparr>"

definition degraded_metrics :: SystemMetrics where
  "degraded_metrics = metrics0\<lparr>avg_connection_quality := 0.4\<rparr>"

definition one_retry_config :: ws_config where
  "one_retry_config = \<lparr>url_ok = True, reconnectInterval = 3000, maxReconnectAttempts = 1\<rparr>"

section \<open>Properties of the dashboard state\<close>

subsection \<open>Rooms\<close>

lemma finished_in_Cons: "finished_in i (m # ms) \<longleftrightarrow> finishes i m \<or> finished_in i ms"
  by (simp add: finished_in_def)

lemma finished_in_Nil: "\<not> finished_in i []"
  by (simp add: finished_in_def)

lemma rooms_replay:
  "rooms (replay fmt s ms)
     = filter (\<lambda>r. \<not> finished_in (sid r) ms) (rooms s) @ started_not_finished ms"
proof (induction ms arbitrary: s)
  case Nil
  show ?case by (simp add: replay_def finished_in_Nil)
next
  case (Cons m ms)
  have step: "replay fmt s (x # ms) = replay fmt (handleMessage fmt s x) ms" for x
    by (simp add: replay_def)
  show ?case
  proof (cases m)
    case (RoomUpdate ty room)
    then show ?thesis
      unfolding step Cons.IH
      by (auto simp: finished_in_Cons intro: filter_cong)
  qed (simp_all add: step Cons.IH finished_in_Cons)
qed

lemma set_started_not_finished:
  "set (started_not_finished ms)
     = {room. \<exists>pre post. ms = pre @ RoomUpdate ''room_started'' room # post
                \<and> \<not> finished_in (sid room) post}"
proof (induction ms)
  case Nil
  show ?case by simp
next
  case (Cons m ms)
  show ?case (is "?L = ?R")
  proof (intro set_eqI iffI)
    fix room assume "room \<in> ?L"
    then consider (new) "started_room m = Some room" "\<not> finished_in (sid room) ms"
      | (old) "room \<in> set (started_not_finished ms)"
      by (auto split: option.splits if_splits)
    then show "room \<in> ?R"
    proof cases
      case new
      then have "m = RoomUpdate ''room_started'' room"
        by (cases m) (auto split: if_splits)
      with new show ?thesis by (auto intro: exI [of _ "[]"])
    next
      case old
      then obtain pre post where "ms = pre @ RoomUpdate ''room_started'' room # post"
        "\<not> finished_in (sid room) post"
        using Cons.IH by auto
      then have "m # ms = (m # pre) @ RoomUpdate ''room_started'' room # post" by simp
      with \<open>\<not> finished_in (sid room) post\<close> show ?thesis by blast
    qed
  next
    fix room assume "room \<in> ?R"
    then obtain pre post where p: "m # ms = pre @ RoomUpdate ''room_started'' room # post"
      "\<not> finished_in (sid room) post" by auto
    show "room \<in> ?L"
    proof (cases pre)
      case Nil
      with p show ?thesis by auto
    next
      case (Cons x pre')
      with p have "ms = pre' @ RoomUpdate ''room_started'' room # post" by simp
      with p(2) have "room \<in> set (started_not_finished ms)"
        using Cons.IH by blast
      then show ?thesis by (auto split: option.splits)
    qed
  qed
qed

text \<open>
  Claim C1. After the handler has replayed any sequence of messages from the initial
  state, the rooms list is the list of the rooms announced by a \<open>room_started\<close> notice
  that no later \<open>room_finished\<close> notice of the same room id follows, in the order of
  their announcement; so a room is in the list exactly when the sequence splits at
  its \<open>room_started\<close> notice into a part before and a part after that does not finish
  it. Messages of every other kind, and notices about other rooms, may stand anywhere
  in the sequence.
\<close>

theorem rooms_after_replay:
  "rooms (replay fmt initial_state ms) = started_not_finished ms
   \<and> set (rooms (replay fmt initial_state ms))
       = {room. \<exists>pre post. ms = pre @ RoomUpdate ''room_started'' room # post
                  \<and> \<not> finished_in (sid room) post}"
proof -
  have "rooms (replay fmt initial_state ms) = started_not_finished ms"
    by (simp add: rooms_replay) (simp add: initial_state_def)
  then show ?thesis
    by (simp only: set_started_not_finished)
qed

theorem rooms_after_replay_witness:
  "rooms (replay (\<lambda>t. t) initial_state
     [RoomUpdate ''room_started'' roomA, RoomUpdate ''room_started'' roomB, Heartbeat,
      RoomUpdate ''room_finished'' roomA]) = [roomB]"
  using rooms_after_replay [of "\<lambda>t. t"
     "[RoomUpdate ''room_started'' roomA, RoomUpdate ''room_started'' roomB, Heartbeat,
      RoomUpdate ''room_finished'' roomA]"]
  by (simp add: finished_in_def roomA_def roomB_def)

text \<open>
  Claim C2. A \<open>room_started\<close> notice for a room id that is already in the rooms list
  should leave the list as it is. The handler appends the room without looking: with
  \<open>roomA\<close> in the list, a second \<open>room_started\<close> notice for \<open>roomA\<close> gives a list with
  two entries of that id.
\<close>

theorem duplicate_room_started_appends:
  "rooms (handleMessage (\<lambda>t. t) (initial_state\<lparr>rooms := [roomA]\<rparr>)
      (RoomUpdate ''room_started'' roomA)) = [roomA, roomA]"
  by simp

subsection \<open>Alerts\<close>

lemma alert_exists_iff: "alert_exists i prev \<longleftrightarrow> i \<in> alert_id ` set prev"
  by (auto simp: alert_exists_def list_ex_iff)

lemma addActive_idem: "addActive alert (addActive alert prev) = addActive alert prev"
  by (simp add: addActive_def alert_exists_def)

lemma addResolved_length: "length prev \<le> 20 \<Longrightarrow> length (addResolved a prev) \<le> 20"
  by (simp add: addResolved_def)

lemma handleMessage_resolved_length:
  "length (resolvedAlerts s) \<le> 20 \<Longrightarrow> length (resolvedAlerts (handleMessage fmt s m)) \<le> 20"
  by (cases m) (simp_all add: addResolved_length)

lemma resolveAlert_resolved_length:
  "length (resolvedAlerts s) \<le> 20 \<Longrightarrow> length (resolvedAlerts (resolveAlert s i res)) \<le> 20"
  by (cases res) simp_all

lemma apply_event_resolved_length:
  "\<not> is_refresh e \<Longrightarrow> length (resolvedAlerts s) \<le> 20 \<Longrightarrow>
   length (resolvedAlerts (apply_event fmt s e)) \<le> 20"
  by (cases e) (simp_all add: handleMessage_resolved_length resolveAlert_resolved_length)

lemma run_events_resolved_length:
  "\<forall>e\<in>set evs. \<not> is_refresh e \<Longrightarrow> length (resolvedAlerts s) \<le> 20 \<Longrightarrow>
   length (resolvedAlerts (run_events fmt s evs)) \<le> 20"
  unfolding run_events_def
  by (induction evs arbitrary: s) (simp_all add: apply_event_resolved_length)

lemma take_20_Cons:
  "length prev \<le> 20 \<Longrightarrow>
   take 20 (a # prev) = a # (if length prev < 20 then prev else butlast prev)"
  by (simp add: butlast_conv_take)

lemma fresh_resolved_message:
  "length (resolvedAlerts s) \<le> 20 \<Longrightarrow> status a = Resolved \<Longrightarrow>
   alert_id a \<notin> alert_id ` set (resolvedAlerts s) \<Longrightarrow>
   resolvedAlerts (handleMessage fmt s (AlertMsg a))
     = a # (if length (resolvedAlerts s) < 20 then resolvedAlerts s
            else butlast (resolvedAlerts s))"
  using take_20_Cons [of "resolvedAlerts s" a]
  by (simp add: addResolved_def alert_exists_iff)

lemma manual_resolve_front:
  "length (resolvedAlerts s) \<le> 20 \<Longrightarrow>
   resolvedAlerts (resolveAlert s i (Fetched a))
     = a # (if length (resolvedAlerts s) < 20 then resolvedAlerts s
            else butlast (resolvedAlerts s))"
  using take_20_Cons [of "resolvedAlerts s" a] by simp

text \<open>
  Claim C3. After any sequence of socket messages and \<open>resolveAlert\<close> calls, from the
  initial state or from any state whose resolved list has at most 20 entries, the
  resolved list has at most 20 entries. A resolution that arrives next (an alert
  message with the status \<open>resolved\<close> and an id the list does not hold yet, or a
  \<open>resolveAlert\<close> call that the server answered with the resolved alert) puts its
  alert in front of the earlier ones, and when the list already has 20 entries its
  last one, the one resolved longest ago, is dropped.
\<close>

theorem resolved_alerts_bounded:
  assumes "length (resolvedAlerts s0) \<le> 20" and "\<forall>e\<in>set evs. \<not> is_refresh e"
  shows "length (resolvedAlerts (run_events fmt initial_state evs)) \<le> 20
    \<and> length (resolvedAlerts (run_events fmt s0 evs)) \<le> 20
    \<and> (status a = Resolved
          \<and> alert_id a \<notin> alert_id ` set (resolvedAlerts (run_events fmt s0 evs)) \<longrightarrow>
        resolvedAlerts (run_events fmt s0 (evs @ [Message (AlertMsg a)]))
          = a # (if length (resolvedAlerts (run_events fmt s0 evs)) < 20
                 then resolvedAlerts (run_events fmt s0 evs)
                 else butlast (resolvedAlerts (run_events fmt s0 evs))))
    \<and> resolvedAlerts (run_events fmt s0 (evs @ [ResolveAlert i (Fetched r)]))
          = r # (if length (resolvedAlerts (run_events fmt s0 evs)) < 20
                 then resolvedAlerts (run_events fmt s0 evs)
                 else butlast (resolvedAlerts (run_events fmt s0 evs)))"
proof -
  have init: "length (resolvedAlerts (run_events fmt initial_state evs)) \<le> 20"
    using assms(2) by (simp add: run_events_resolved_length initial_state_def)
  have len: "length (resolvedAlerts (run_events fmt s0 evs)) \<le> 20"
    using assms by (simp add: run_events_resolved_length)
  have snoc: "run_events fmt s0 (evs @ [e]) = apply_event fmt (run_events fmt s0 evs) e" for e
    by (simp add: run_events_def)
  show ?thesis
    using init len fresh_resolved_message [OF len, of a fmt] manual_resolve_front [OF len, of i r]
    by (simp only: snoc apply_event.simps) blast
qed

theorem resolved_alerts_bounded_witness:
  "length (resolvedAlerts initial_state) \<le> 20
   \<and> \<not> is_refresh (Message (AlertMsg alert1))
   \<and> length (resolvedAlerts (run_events (\<lambda>t. t) initial_state [Message (AlertMsg alert1)])) \<le> 20
   \<and> status alert1_resolved = Resolved
   \<and> alert_id alert1_resolved
        \<notin> alert_id ` set (resolvedAlerts (run_events (\<lambda>t. t) initial_state [Message (AlertMsg alert1)]))
   \<and> resolvedAlerts (run_events (\<lambda>t. t) initial_state
        ([Message (AlertMsg alert1)] @ [Message (AlertMsg alert1_resolved)])) = [alert1_resolved]
   \<and> resolvedAlerts (run_events (\<lambda>t. t) initial_state
        ([Message (AlertMsg alert1)] @ [ResolveAlert ''a1'' (Fetched alert1_resolved)])) = [alert1_resolved]"
proof -
  have l: "length (resolvedAlerts initial_state) \<le> 20"
    by (simp add: initial_state_def)
  have h: "\<forall>e\<in>set [Message (AlertMsg alert1)]. \<not> is_refresh e"
    by simp
  have e: "resolvedAlerts (run_events (\<lambda>t. t) initial_state [Message (AlertMsg alert1)]) = []"
    by (simp add: run_events_def initial_state_def alert1_def)
  have r: "status alert1_resolved = Resolved"
    by (simp add: alert1_resolved_def)
  show ?thesis
    using l h r resolved_alerts_bounded [OF l h, where a = alert1_resolved and fmt = "\<lambda>t. t"
        and i = "''a1''" and r = alert1_resolved]
    by (simp add: e)
qed

lemma resolveAlert_cases:
  "resolveAlert s alertId NotOk = s \<and> resolveAlert s alertId Threw = s
   \<and> (resolveAlert s alertId res \<noteq> s \<longrightarrow> (\<exists>a. res = Fetched a))
   \<and> activeAlerts (resolveAlert s alertId (Fetched a))
        = filter (\<lambda>x. alert_id x \<noteq> alertId) (activeAlerts s)
   \<and> alertId \<notin> alert_id ` set (activeAlerts (resolveAlert s alertId (Fetched a)))
   \<and> resolvedAlerts (resolveAlert s alertId (Fetched a)) = take 20 (a # resolvedAlerts s)"
  by (cases res) auto

lemma find_id_None:
  "find (\<lambda>a. alert_id a = i) xs = None \<longleftrightarrow> i \<notin> alert_id ` set xs"
  by (auto simp: find_None_iff)

lemma find_id_Some:
  "find (\<lambda>a. alert_id a = i) xs = Some a \<Longrightarrow> alert_id a = i \<and> a \<in> set xs"
  by (auto simp: find_Some_iff)

lemma engine_resolve_miss:
  "alertId \<notin> alert_id ` set (engine_active e) \<Longrightarrow>
   engine_resolve now e alertId = (Inl NotFoundError, e)"
  using find_id_None [of alertId "engine_active e"] by (simp add: engine_resolve_def)

lemma engine_resolve_hit:
  assumes "alertId \<in> alert_id ` set (engine_active e)"
  shows "\<exists>a r. a \<in> set (engine_active e) \<and> alert_id a = alertId
           \<and> r = a\<lparr>status := Resolved, resolved_at := Some now\<rparr>
           \<and> engine_resolve now e alertId
               = (Inr r, e\<lparr>engine_active := filter (\<lambda>x. alert_id x \<noteq> alertId) (engine_active e),
                           engine_resolved := take (retention e) (r # engine_resolved e)\<rparr>)"
proof -
  from assms have "find (\<lambda>a. alert_id a = alertId) (engine_active e) \<noteq> None"
    using find_id_None [of alertId "engine_active e"] by simp
  then obtain a where f: "find (\<lambda>a. alert_id a = alertId) (engine_active e) = Some a"
    by auto
  with find_id_Some [OF f] show ?thesis
    by (intro exI [of _ a] exI [of _ "a\<lparr>status := Resolved, resolved_at := Some now\<rparr>"])
      (simp add: engine_resolve_def Let_def)
qed

lemma engine_resolve_twice:
  "fst (engine_resolve now' (snd (engine_resolve now e alertId)) alertId) = Inl NotFoundError"
proof (cases "alertId \<in> alert_id ` set (engine_active e)")
  case True
  from engine_resolve_hit [OF True, of now]
  have "alertId \<notin> alert_id ` set (engine_active (snd (engine_resolve now e alertId)))"
    by auto
  then show ?thesis by (simp add: engine_resolve_miss)
next
  case False
  then show ?thesis by (simp add: engine_resolve_miss)
qed

text \<open>
  Claim C4. Resolving an alert id that no active alert of the server has (an unknown
  id, or the id of an alert that is already resolved) fails: the server answers
  not-found, and the call leaves the server's alerts and the whole dashboard state,
  the active and the resolved list with it, as they were. In particular a second
  resolve of the same id, after a first one, is a miss. The dashboard state changes
  only when the id was active on the server; then the server returns that alert with
  the status \<open>resolved\<close>, the dashboard drops every alert of the id from its active
  list and puts the returned alert at the head of its resolved list.
\<close>

theorem resolve_unknown_or_resolved_misses:
  "(alertId \<notin> alert_id ` set (engine_active e) \<longrightarrow>
        fst (engine_resolve now e alertId) = Inl NotFoundError
      \<and> resolve_call now e s alertId = (e, s))
   \<and> snd (resolve_call now' (fst (resolve_call now e s alertId)) s' alertId) = s'
   \<and> (snd (resolve_call now e s alertId) \<noteq> s \<longrightarrow>
        alertId \<in> alert_id ` set (engine_active e))
   \<and> (alertId \<in> alert_id ` set (engine_active e) \<longrightarrow>
        (\<exists>r. fst (engine_resolve now e alertId) = Inr r
           \<and> alert_id r = alertId \<and> status r = Resolved \<and> resolved_at r = Some now
           \<and> activeAlerts (snd (resolve_call now e s alertId))
               = filter (\<lambda>x. alert_id x \<noteq> alertId) (activeAlerts s)
           \<and> alertId \<notin> alert_id ` set (activeAlerts (snd (resolve_call now e s alertId)))
           \<and> resolvedAlerts (snd (resolve_call now e s alertId))
               = take 20 (r # resolvedAlerts s)))"
proof (intro conjI impI)
  assume m: "alertId \<notin> alert_id ` set (engine_active e)"
  show "fst (engine_resolve now e alertId) = Inl NotFoundError"
    by (simp add: engine_resolve_miss [OF m])
  show "resolve_call now e s alertId = (e, s)"
    by (simp add: resolve_call_def engine_resolve_miss [OF m])
next
  show "snd (resolve_call now' (fst (resolve_call now e s alertId)) s' alertId) = s'"
    using engine_resolve_twice [of now' now e alertId] by (simp add: resolve_call_def)
next
  assume c: "snd (resolve_call now e s alertId) \<noteq> s"
  show "alertId \<in> alert_id ` set (engine_active e)"
  proof (rule ccontr)
    assume "alertId \<notin> alert_id ` set (engine_active e)"
    then have "resolve_call now e s alertId = (e, s)"
      by (simp add: resolve_call_def engine_resolve_miss)
    with c show False by simp
  qed
next
  assume h: "alertId \<in> alert_id ` set (engine_active e)"
  from engine_resolve_hit [OF h, of now] obtain a r where
    r: "alert_id a = alertId" "r = a\<lparr>status := Resolved, resolved_at := Some now\<rparr>"
      "fst (engine_resolve now e alertId) = Inr r"
    by auto
  have "alert_id r = alertId \<and> status r = Resolved \<and> resolved_at r = Some now"
    using r by simp
  moreover have "snd (resolve_call now e s alertId) = resolveAlert s alertId (Fetched r)"
    using r(3) by (simp add: resolve_call_def)
  ultimately show "\<exists>r. fst (engine_resolve now e alertId) = Inr r
           \<and> alert_id r = alertId \<and> status r = Resolved \<and> resolved_at r = Some now
           \<and> activeAlerts (snd (resolve_call now e s alertId))
               = filter (\<lambda>x. alert_id x \<noteq> alertId) (activeAlerts s)
           \<and> alertId \<notin> alert_id ` set (activeAlerts (snd (resolve_call now e s alertId)))
           \<and> resolvedAlerts (snd (resolve_call now e s alertId))
               = take 20 (r # resolvedAlerts s)"
    using r(3) resolveAlert_cases [of s alertId "Fetched r" r] by auto
qed

theorem resolve_unknown_or_resolved_misses_witness:
  "''nope'' \<notin> alert_id ` set (engine_active engine1)
   \<and> resolve_call ''2024-01-01T00:05:00Z'' engine1 (initial_state\<lparr>activeAlerts := [alert1]\<rparr>) ''nope''
       = (engine1, initial_state\<lparr>activeAlerts := [alert1]\<rparr>)
   \<and> ''a1'' \<in> alert_id ` set (engine_active engine1)
   \<and> snd (resolve_call ''2024-01-01T00:05:00Z'' engine1
        (initial_state\<lparr>activeAlerts := [alert1]\<rparr>) ''a1'')
       \<noteq> initial_state\<lparr>activeAlerts := [alert1]\<rparr>
   \<and> activeAlerts (snd (resolve_call ''2024-01-01T00:05:00Z'' engine1
        (initial_state\<lparr>activeAlerts := [alert1]\<rparr>) ''a1'')) = []
   \<and> resolvedAlerts (snd (resolve_call ''2024-01-01T00:05:00Z'' engine1
        (initial_state\<lparr>activeAlerts := [alert1]\<rparr>) ''a1'')) = [alert1_resolved]
   \<and> resolve_call ''2024-01-01T00:06:00Z''
        (fst (resolve_call ''2024-01-01T00:05:00Z'' engine1
           (initial_state\<lparr>activeAlerts := [alert1]\<rparr>) ''a1''))
        (initial_state\<lparr>resolvedAlerts := [alert1_resolved]\<rparr>) ''a1''
       = (fst (resolve_call ''2024-01-01T00:05:00Z'' engine1
           (initial_state\<lparr>activeAlerts := [alert1]\<rparr>) ''a1''),
          initial_state\<lparr>resolvedAlerts := [alert1_resolved]\<rparr>)"
  using resolve_unknown_or_resolved_misses [of "''nope''" engine1 "''2024-01-01T00:05:00Z''"
      "initial_state\<lparr>activeAlerts := [alert1]\<rparr>" "''2024-01-01T00:06:00Z''"
      "initial_state\<lparr>resolvedAlerts := [alert1_resolved]\<rparr>"]
    resolve_unknown_or_resolved_misses [of "''a1''" engine1 "''2024-01-01T00:05:00Z''"
      "initial_state\<lparr>activeAlerts := [alert1]\<rparr>" "''2024-01-01T00:06:00Z''"
      "initial_state\<lparr>resolvedAlerts := [alert1_resolved]\<rparr>"]
  by (simp add: resolve_call_def engine_resolve_def engine1_def alert1_def alert1_resolved_def
      initial_state_def Let_def)

text \<open>
  Claim C10. Handling an alert message with the status \<open>active\<close> twice gives the state
  that handling it once gives; and when the active list already holds an alert of
  the incoming id, the message leaves the active list, and the whole state,
  unchanged.
\<close>

theorem duplicate_active_alert_idempotent:
  "status alert = Active \<Longrightarrow>
     handleMessage fmt (handleMessage fmt s (AlertMsg alert)) (AlertMsg alert)
       = handleMessage fmt s (AlertMsg alert)
     \<and> (alert_id alert \<in> alert_id ` set (activeAlerts s) \<longrightarrow>
          handleMessage fmt s (AlertMsg alert) = s
          \<and> activeAlerts (handleMessage fmt s (AlertMsg alert)) = activeAlerts s)"
  by (simp add: addActive_idem) (simp add: addActive_def alert_exists_iff)

theorem duplicate_active_alert_idempotent_witness:
  "status alert1 = Active
   \<and> alert_id alert1 \<in> alert_id ` set (activeAlerts (initial_state\<lparr>activeAlerts := [alert1]\<rparr>))
   \<and> handleMessage (\<lambda>t. t) (initial_state\<lparr>activeAlerts := [alert1]\<rparr>) (AlertMsg alert1)
       = initial_state\<lparr>activeAlerts := [alert1]\<rparr>"
  using duplicate_active_alert_idempotent [of alert1 "\<lambda>t. t"
      "initial_state\<lparr>activeAlerts := [alert1]\<rparr>"]
  by (simp add: alert1_def)

subsection \<open>Chart data\<close>

text \<open>
  What the \<open>metrics_update\<close> case does to the chart data: the new point goes to the
  end, and a chart that already has 60 points loses its first, its oldest.
\<close>

lemma appendChartPoint_eq:
  "length prev \<le> 60 \<Longrightarrow>
   appendChartPoint p prev = (if length prev < 60 then prev else tl prev) @ [p]"
proof (cases "length prev < 60")
  case True
  then show ?thesis by (simp add: appendChartPoint_def Let_def)
next
  case False
  assume "length prev \<le> 60"
  with False have n: "length prev = 60" by simp
  then obtain x xs where "prev = x # xs" by (cases prev) auto
  with n show ?thesis by (simp add: appendChartPoint_def slice_last_def Let_def)
qed

lemma appendChartPoint_length: "length (appendChartPoint p prev) \<le> 60"
  by (simp add: appendChartPoint_def slice_last_def Let_def)

lemma metrics_update_chart_length:
  "length (chartData (handleMessage fmt s (MetricsUpdate metrics))) \<le> 60"
  by (simp add: appendChartPoint_length)

text \<open>
  Claim C7. The chart data should never hold more than 60 points. The
  \<open>metrics_update\<close> case keeps the last 60, but \<open>refreshData\<close> stores one point for
  every snapshot of the history it fetched: a history of 61 snapshots leaves 61
  points.
\<close>

theorem refresh_exceeds_chart_capacity:
  "length (chartData (refreshData (\<lambda>t. t) initial_state NotOk NotOk NotOk
      (Fetched (replicate 61 metrics0)))) = 61"
  by (simp add: refreshData_def refreshMetrics_def refreshRooms_def refreshAlerts_def
      refreshHistory_def)

subsection \<open>Messages that change nothing\<close>

lemma ignored_kind_noop: "ignored_kind m \<Longrightarrow> handleMessage fmt s m = s"
  by (cases m) simp_all

lemma replay_ignored: "list_all ignored_kind ms \<Longrightarrow> replay fmt s ms = s"
  by (induction ms) (simp_all add: replay_def ignored_kind_noop)

text \<open>
  Claim C8. A \<open>heartbeat\<close> message, a \<open>pong\<close> message and a message of any kind the
  handler has no case for leave the state (current metrics, rooms, active and
  resolved alerts, chart data) as it was, and so does any sequence of such messages.
\<close>

theorem ignored_kinds_noop:
  "handleMessage fmt s Heartbeat = s \<and> handleMessage fmt s Pong = s
   \<and> handleMessage fmt s (OtherKind t) = s
   \<and> (list_all ignored_kind ms \<longrightarrow> replay fmt s ms = s)"
  by (simp add: replay_ignored)

theorem ignored_kinds_noop_witness:
  "list_all ignored_kind [Heartbeat, Pong, OtherKind ''participant_joined'']
   \<and> replay (\<lambda>t. t) (initial_state\<lparr>rooms := [roomA]\<rparr>)
        [Heartbeat, Pong, OtherKind ''participant_joined'']
       = initial_state\<lparr>rooms := [roomA]\<rparr>
   \<and> handleMessage (\<lambda>t. t) (initial_state\<lparr>rooms := [roomA]\<rparr>) Pong
       = initial_state\<lparr>rooms := [roomA]\<rparr>"
  using ignored_kinds_noop [of "\<lambda>t. t" "initial_state\<lparr>rooms := [roomA]\<rparr>"
      "''participant_joined''" "[Heartbeat, Pong, OtherKind ''participant_joined'']"]
  by simp

section \<open>Properties of the overall health\<close>

text \<open>
  Claim C9. \<open>getOverallHealth\<close> reports \<open>critical\<close> exactly when the connection status
  is not \<open>connected\<close>, whatever the metrics and the alert count are. With the status
  \<open>connected\<close> it reports \<open>warning\<close> exactly when the active-alert count is positive or
  there is a metrics snapshot whose average connection quality is below 0.5, and
  \<open>healthy\<close> exactly when neither holds. So a console that is not connected never
  reports \<open>healthy\<close>, not even with no alert.
\<close>

theorem overall_health:
  "(fst (getOverallHealth cs m n) = Critical \<longleftrightarrow> cs \<noteq> Connected)
   \<and> (cs = Connected \<longrightarrow>
        (fst (getOverallHealth cs m n) = Warning \<longleftrightarrow>
           0 < n \<or> (\<exists>x. m = Some x \<and> avg_connection_quality x < 0.5))
      \<and> (fst (getOverallHealth cs m n) = Healthy \<longleftrightarrow>
           \<not> (0 < n \<or> (\<exists>x. m = Some x \<and> avg_connection_quality x < 0.5))))
   \<and> (cs \<noteq> Connected \<longrightarrow> fst (getOverallHealth cs m n) \<noteq> Healthy)"
  by (auto simp: getOverallHealth_def split: option.splits)

theorem overall_health_witness:
  "Disconnected \<noteq> Connected
   \<and> fst (getOverallHealth Disconnected (Some metrics0) 0) = Critical
   \<and> fst (getOverallHealth Connected (Some metrics0) 0) = Healthy
   \<and> fst (getOverallHealth Connected None 2) = Warning
   \<and> fst (getOverallHealth Connected (Some degraded_metrics) 0) = Warning"
  using overall_health [of Disconnected "Some metrics0" 0]
    overall_health [of Connected "Some metrics0" 0]
    overall_health [of Connected None 2]
    overall_health [of Connected "Some degraded_metrics" 0]
  by (simp add: metrics0_def degraded_metrics_def)

section \<open>Properties of the connection\<close>

lemmas ws_defs = step_def pingEffect_def onopen_def onclose_def onerror_def onmessage_def
  timerFired_def connect_def disconnect_def reconnect_def unmount_def pingTick_def
  sendMessage_def Let_def

lemmas ws_run_defs = run_def mount_def ws_initial_def

subsection \<open>Reconnecting\<close>

lemma conn_inv_mount: "conn_inv cfg (mount cfg)"
  by (simp add: conn_inv_def mount_def ws_initial_def pingEffect_def connect_def)

lemma conn_inv_step: "conn_inv cfg s \<Longrightarrow> conn_inv cfg (step cfg s sg)"
  by (cases sg) (auto simp: conn_inv_def ws_defs split: option.splits)

lemma conn_inv_foldl: "conn_inv cfg s \<Longrightarrow> conn_inv cfg (foldl (step cfg) s sgs)"
  by (induction sgs arbitrary: s) (simp_all add: conn_inv_step)

lemma conn_inv_run: "conn_inv cfg (run cfg sgs)"
  by (simp add: run_def conn_inv_foldl conn_inv_mount)

lemma count_inv_step: "\<not> resets_attempts sg \<Longrightarrow> count_inv s \<Longrightarrow> count_inv (step cfg s sg)"
  by (cases sg) (auto simp: count_inv_def ws_defs split: option.splits)

lemma count_inv_foldl:
  "\<forall>sg\<in>set sgs. \<not> resets_attempts sg \<Longrightarrow> count_inv s \<Longrightarrow>
   count_inv (foldl (step cfg) s sgs)"
  by (induction sgs arbitrary: s) (simp_all add: count_inv_step)

lemma count_inv_run: "\<forall>sg\<in>set sgs. \<not> resets_attempts sg \<Longrightarrow> count_inv (run cfg sgs)"
  unfolding run_def
  by (rule count_inv_foldl)
    (simp_all add: count_inv_def mount_def ws_initial_def pingEffect_def connect_def)

lemma transitions:
  "mountedRef s \<Longrightarrow>
     ws_status (step cfg s ChannelOpen) = Connected
   \<and> reconnectAttemptsRef (step cfg s ChannelOpen) = 0
   \<and> ws_status (step cfg s ChannelClose) = Disconnected
   \<and> ws_status (step cfg s ChannelError) = Error
   \<and> (reconnectAttemptsRef s < maxReconnectAttempts cfg \<longrightarrow>
        timers (step cfg s ChannelClose) = timers s @ [(nextTimer s, reconnectInterval cfg)]
      \<and> reconnectAttemptsRef (step cfg s ChannelClose) = reconnectAttemptsRef s + 1)
   \<and> (\<not> reconnectAttemptsRef s < maxReconnectAttempts cfg \<longrightarrow>
        timers (step cfg s ChannelClose) = timers s
      \<and> reconnectAttemptsRef (step cfg s ChannelClose) = reconnectAttemptsRef s)
   \<and> (url_ok cfg \<and> tid \<in> fst ` set (timers s) \<longrightarrow>
        ws_status (step cfg s (TimerFired tid)) = Connecting)"
  by (auto simp: ws_defs list_ex_iff)

text \<open>
  Claim C5, as the code has it. The connection is a state machine over the four
  statuses: while the hook is mounted an open signal gives \<open>connected\<close> and resets the
  attempt counter, a close signal gives \<open>disconnected\<close>, an error signal gives \<open>error\<close>,
  and a reconnect timeout that fires gives \<open>connecting\<close>. After a close the hook retries
  after a fixed delay: with the counter below \<open>maxReconnectAttempts\<close> the close counts
  one attempt and schedules one timeout of \<open>reconnectInterval\<close>, and with the counter
  at the cap it schedules none. After every sequence of signals the counter is within
  the cap and every pending timeout has the delay \<open>reconnectInterval\<close>; and as long as
  no open signal and no manual reconnect has reset the counter, the timeouts scheduled
  so far are at most \<open>maxReconnectAttempts\<close>.
\<close>

theorem reconnect_capped_fixed_delay:
  assumes "s = run cfg sgs"
  shows "reconnectAttemptsRef s \<le> maxReconnectAttempts cfg
   \<and> (\<forall>t\<in>set (timers s). snd t = reconnectInterval cfg)
   \<and> ((\<forall>sg\<in>set sgs. \<not> resets_attempts sg) \<longrightarrow> nextTimer s - 1 \<le> maxReconnectAttempts cfg)
   \<and> (mountedRef s \<longrightarrow>
       ws_status (step cfg s ChannelOpen) = Connected
     \<and> reconnectAttemptsRef (step cfg s ChannelOpen) = 0
     \<and> ws_status (step cfg s ChannelClose) = Disconnected
     \<and> ws_status (step cfg s ChannelError) = Error
     \<and> (reconnectAttemptsRef s < maxReconnectAttempts cfg \<longrightarrow>
          timers (step cfg s ChannelClose) = timers s @ [(nextTimer s, reconnectInterval cfg)]
        \<and> reconnectAttemptsRef (step cfg s ChannelClose) = reconnectAttemptsRef s + 1)
     \<and> (\<not> reconnectAttemptsRef s < maxReconnectAttempts cfg \<longrightarrow>
          timers (step cfg s ChannelClose) = timers s
        \<and> reconnectAttemptsRef (step cfg s ChannelClose) = reconnectAttemptsRef s)
     \<and> (url_ok cfg \<and> tid \<in> fst ` set (timers s) \<longrightarrow>
          ws_status (step cfg s (TimerFired tid)) = Connecting))"
proof -
  have a: "reconnectAttemptsRef s \<le> maxReconnectAttempts cfg"
    and b: "\<forall>t\<in>set (timers s). snd t = reconnectInterval cfg"
    using conn_inv_run [of cfg sgs] assms by (simp_all add: conn_inv_def)
  have c: "(\<forall>sg\<in>set sgs. \<not> resets_attempts sg) \<longrightarrow> nextTimer s - 1 \<le> maxReconnectAttempts cfg"
    using count_inv_run [of sgs cfg] a assms by (auto simp: count_inv_def)
  show ?thesis
    using a b c transitions [of s cfg tid] by blast
qed

theorem reconnect_capped_fixed_delay_witness:
  "mountedRef (run default_config [ChannelClose])
   \<and> reconnectAttemptsRef (run default_config [ChannelClose]) < maxReconnectAttempts default_config
   \<and> \<not> resets_attempts ChannelClose
   \<and> nextTimer (run default_config [ChannelClose]) - 1 \<le> maxReconnectAttempts default_config
   \<and> url_ok default_config
   \<and> 1 \<in> fst ` set (timers (run default_config [ChannelClose]))
   \<and> ws_status (step default_config (run default_config [ChannelClose]) (TimerFired 1)) = Connecting
   \<and> ws_status (step default_config (run default_config [ChannelClose]) ChannelOpen) = Connected
   \<and> timers (step default_config (run default_config [ChannelClose]) ChannelClose)
       = [(1, 3000), (2, 3000)]
   \<and> mountedRef (run one_retry_config [ChannelClose])
   \<and> \<not> reconnectAttemptsRef (run one_retry_config [ChannelClose])
         < maxReconnectAttempts one_retry_config
   \<and> timers (step one_retry_config (run one_retry_config [ChannelClose]) ChannelClose)
       = [(1, 3000)]"
  using reconnect_capped_fixed_delay [where s = "run default_config [ChannelClose]"
      and cfg = default_config and sgs = "[ChannelClose]" and tid = 1, OF refl]
    reconnect_capped_fixed_delay [where s = "run one_retry_config [ChannelClose]"
      and cfg = one_retry_config and sgs = "[ChannelClose]" and tid = 1, OF refl]
  by (simp add: ws_run_defs ws_defs default_config_def one_retry_config_def)

text \<open>
  Claim C5 as stated asks for an exponential backoff, under which each retry waits
  longer than the one before. With the default options the first, the second and the
  third retry in a row are all scheduled 3000 ms after their close.
\<close>

theorem backoff_not_exponential:
  "retry_delay default_config [ChannelClose] = Some 3000
   \<and> retry_delay default_config [ChannelClose, TimerFired 1, ChannelClose] = Some 3000
   \<and> retry_delay default_config
        [ChannelClose, TimerFired 1, ChannelClose, TimerFired 2, ChannelClose] = Some 3000"
  by (simp add: retry_delay_def ws_run_defs default_config_def ws_defs)

subsection \<open>Pinging\<close>

lemma ping_inv_step: "ping_inv s \<Longrightarrow> ping_inv (step cfg s sg)"
  by (cases sg) (auto simp: ping_inv_def ws_defs split: option.splits)

lemma ping_inv_foldl: "ping_inv s \<Longrightarrow> ping_inv (foldl (step cfg) s sgs)"
  by (induction sgs arbitrary: s) (simp_all add: ping_inv_step)

lemma ping_inv_run: "ping_inv (run cfg sgs)"
  unfolding run_def
  by (rule ping_inv_foldl)
    (simp add: ping_inv_def mount_def ws_initial_def pingEffect_def connect_def)

lemma sent_step:
  "sent (step cfg s sg) = sent s
   \<or> (\<exists>ready. sg = PingTick ready) \<and> pingInterval s \<noteq> None
       \<and> sent (step cfg s sg) = sent s @ [ping]"
  by (cases sg) (auto simp: ws_defs split: option.splits)

lemma tick_sends_ping:
  "pingInterval s \<noteq> None \<Longrightarrow> wsRef s \<noteq> None \<Longrightarrow>
   sent (step cfg s (PingTick True)) = sent s @ [[(''type'', ''ping'')]]"
  by (auto simp: ws_defs ping_def)

lemma tick_not_open: "sent (step cfg s (PingTick False)) = sent s"
  by (auto simp: ws_defs)

text \<open>
  Claim C6. After every sequence of signals, everything the hook has sent is the
  liveness ping, the object \<open>{type: 'ping'}\<close>, and the ping interval, of 30000 ms, runs
  exactly while the hook is mounted with the status \<open>connected\<close>: it is gone as soon as
  the status is anything else. While the hook is mounted with the status \<open>connected\<close>,
  a tick of the interval that finds the current socket open sends one ping, and a
  tick that finds it not open sends nothing. A signal that arrives while the status
  is not \<open>connected\<close> sends nothing, and the only signal that ever sends is a tick of
  the ping interval.
\<close>

theorem only_ping_while_connected:
  assumes "s = run cfg sgs"
  shows "(\<forall>m\<in>set (sent s). m = [(''type'', ''ping'')])
   \<and> pingInterval s = (if mountedRef s \<and> ws_status s = Connected then Some 30000 else None)
   \<and> (mountedRef s \<and> ws_status s = Connected \<and> wsRef s \<noteq> None \<longrightarrow>
        sent (step cfg s (PingTick True)) = sent s @ [[(''type'', ''ping'')]])
   \<and> sent (step cfg s (PingTick False)) = sent s
   \<and> (ws_status s \<noteq> Connected \<longrightarrow> sent (step cfg s sg) = sent s)
   \<and> (sent (step cfg s sg) \<noteq> sent s \<longrightarrow>
        (\<exists>ready. sg = PingTick ready)
        \<and> sent (step cfg s sg) = sent s @ [[(''type'', ''ping'')]])"
proof -
  have i: "ping_inv s" using assms ping_inv_run by simp
  then have off: "ws_status s \<noteq> Connected \<longrightarrow> pingInterval s = None"
    and on: "mountedRef s \<and> ws_status s = Connected \<longrightarrow> pingInterval s \<noteq> None"
    and all: "\<forall>m\<in>set (sent s). m = [(''type'', ''ping'')]"
    and iv: "pingInterval s
      = (if mountedRef s \<and> ws_status s = Connected then Some 30000 else None)"
    by (simp_all add: ping_inv_def ping_def)
  have tick: "mountedRef s \<and> ws_status s = Connected \<and> wsRef s \<noteq> None \<longrightarrow>
        sent (step cfg s (PingTick True)) = sent s @ [[(''type'', ''ping'')]]"
    using on tick_sends_ping [of s cfg] by blast
  have only: "sent (step cfg s sg) \<noteq> sent s \<longrightarrow>
        (\<exists>ready. sg = PingTick ready)
        \<and> sent (step cfg s sg) = sent s @ [[(''type'', ''ping'')]]"
    using sent_step [of cfg s sg] by (auto simp: ping_def)
  have quiet: "ws_status s \<noteq> Connected \<longrightarrow> sent (step cfg s sg) = sent s"
    using off sent_step [of cfg s sg] by auto
  show ?thesis
    using all iv tick tick_not_open [of cfg s] quiet only by blast
qed

theorem only_ping_while_connected_witness:
  "mountedRef (run default_config [ChannelOpen, PingTick True])
   \<and> ws_status (run default_config [ChannelOpen, PingTick True]) = Connected
   \<and> wsRef (run default_config [ChannelOpen, PingTick True]) \<noteq> None
   \<and> sent (run default_config [ChannelOpen, PingTick True]) = [[(''type'', ''ping'')]]
   \<and> pingInterval (run default_config [ChannelOpen, PingTick True]) = Some 30000
   \<and> sent (step default_config (run default_config [ChannelOpen, PingTick True]) (PingTick True))
       = [[(''type'', ''ping'')], [(''type'', ''ping'')]]
   \<and> sent (step default_config (run default_config [ChannelOpen, PingTick True]) (PingTick True))
       \<noteq> sent (run default_config [ChannelOpen, PingTick True])
   \<and> ws_status (run default_config [ChannelOpen, ChannelClose]) \<noteq> Connected
   \<and> pingInterval (run default_config [ChannelOpen, ChannelClose]) = None
   \<and> sent (step default_config (run default_config [ChannelOpen, ChannelClose]) (PingTick True))
       = sent (run default_config [ChannelOpen, ChannelClose])"
  using only_ping_while_connected [where s = "run default_config [ChannelOpen, PingTick True]"
      and cfg = default_config and sgs = "[ChannelOpen, PingTick True]"
      and sg = "PingTick True", OF refl]
    only_ping_while_connected [where s = "run default_config [ChannelOpen, ChannelClose]"
      and cfg = default_config and sgs = "[ChannelOpen, ChannelClose]"
      and sg = "PingTick True", OF refl]
  by (simp add: ws_run_defs ws_defs default_config_def ping_def)

end
